theory Spec2Isabelle
  imports Main "HOL-Library.AList"
begin

section \<open>JavaScript values\<close>

text \<open>
  The form helpers of \<^verbatim>\<open>jsonforms.js\<close> work on JSON data: the context handed to a
  handler is an object whose properties are simple values, arrays or further objects.
  A value is a tree; an object is an association list with distinct keys, in the order
  in which \<^verbatim>\<open>for (k in obj)\<close> visits them (a new key is visited last, as JavaScript does
  for keys that are not array indices). Numbers are the integer-valued ones.
\<close>

datatype jsval =
    Undefined
  | Null
  | Bool bool
  | Num int
  | Str string
  | Arr "jsval list"
  | Obj "(string \<times> jsval) list"

type_synonym dict = "(string \<times> jsval) list"

text \<open>ToBoolean: what \<^verbatim>\<open>if (x)\<close> and \<^verbatim>\<open>x || y\<close> test.\<close>

fun truthy :: "jsval \<Rightarrow> bool" where
  "truthy Undefined = False"
| "truthy Null = False"
| "truthy (Bool b) = b"
| "truthy (Num n) = (n \<noteq> 0)"
| "truthy (Str s) = (s \<noteq> [])"
| "truthy (Arr xs) = True"
| "truthy (Obj kvs) = True"

text \<open>\<^verbatim>\<open>a || b\<close> on values already computed.\<close>

definition js_or :: "jsval \<Rightarrow> jsval \<Rightarrow> jsval" where
  "js_or a b = (if truthy a then a else b)"

text \<open>\<^verbatim>\<open>$.isPlainObject(x)\<close>: an object made by a literal or by JSON, not an array.\<close>

fun isPlainObject :: "jsval \<Rightarrow> bool" where
  "isPlainObject (Obj kvs) = True"
| "isPlainObject _ = False"

text \<open>
  The own properties of an object: whether \<open>k\<close> is one of its keys, and \<^verbatim>\<open>obj[k]\<close>; a
  missing property reads as undefined.
\<close>

definition has_key :: "dict \<Rightarrow> string \<Rightarrow> bool" where
  "has_key kvs k = (map_of kvs k \<noteq> None)"

definition lookup :: "dict \<Rightarrow> string \<Rightarrow> jsval" where
  "lookup kvs k = (case map_of kvs k of None \<Rightarrow> Undefined | Some v \<Rightarrow> v)"

text \<open>Property read \<^verbatim>\<open>x.k\<close> on a plain object.\<close>

fun get_prop :: "jsval \<Rightarrow> string \<Rightarrow> jsval" where
  "get_prop (Obj kvs) k = lookup kvs k"
| "get_prop _ k = Undefined"

text \<open>An array is what the helpers call a list of values or of error messages.\<close>

fun is_sequence :: "jsval \<Rightarrow> bool" where
  "is_sequence (Arr xs) = True"
| "is_sequence _ = False"

section \<open>Unwrapping initial data\<close>

text \<open>
  \<^verbatim>\<open>
  get_value: function(x) {
      if($.isPlainObject(x)) return x.value;
      else return x;
  },
  get_errors: function(x) {
      if($.isPlainObject(x)) return x.errors || [];
      else return [];
  },
  \<close>
\<close>

definition get_value :: "jsval \<Rightarrow> jsval" where
  "get_value x = (if isPlainObject x then get_prop x ''value'' else x)"

definition get_errors :: "jsval \<Rightarrow> jsval" where
  "get_errors x = (if isPlainObject x then js_or (get_prop x ''errors'') (Arr []) else Arr [])"

section \<open>Strings from values\<close>

text \<open>The decimal digits of a number, as \<^verbatim>\<open>"id_edwa_" + next_id\<close> writes them.\<close>

fun string_of_nat :: "nat \<Rightarrow> string" where
  "string_of_nat n =
     (if n < 10 then [''0123456789'' ! n]
      else string_of_nat (n div 10) @ [''0123456789'' ! (n mod 10)])"

declare string_of_nat.simps [simp del]

text \<open>
  ToString, the conversion behind \<^verbatim>\<open>"" + x\<close>: an array joins its elements with commas,
  writing nothing for null and undefined; an object gives a fixed text.
\<close>

fun js_to_string :: "jsval \<Rightarrow> string"
  and js_join :: "jsval list \<Rightarrow> string" where
  "js_to_string Undefined = ''undefined''"
| "js_to_string Null = ''null''"
| "js_to_string (Bool b) = (if b then ''true'' else ''false'')"
| "js_to_string (Num n) =
     (if n < 0 then ''-'' @ string_of_nat (nat (- n)) else string_of_nat (nat n))"
| "js_to_string (Str s) = s"
| "js_to_string (Arr xs) = js_join xs"
| "js_to_string (Obj kvs) = ''[object Object]''"
| "js_join [] = []"
| "js_join [x] = (if x = Undefined \<or> x = Null then [] else js_to_string x)"
| "js_join (x # y # ys) =
     (if x = Undefined \<or> x = Null then [] else js_to_string x) @ '','' @ js_join (y # ys)"

text \<open>
  The properties \<^verbatim>\<open>for (k in x)\<close> visits, with their values: the keys of an object, the
  indices of an array, the positions of a string; nothing for the other values.
\<close>

fun props :: "jsval \<Rightarrow> dict" where
  "props (Obj kvs) = map (\<lambda>kv. (fst kv, lookup kvs (fst kv))) kvs"
| "props (Arr xs) = zip (map string_of_nat [0..<length xs]) xs"
| "props (Str s) = zip (map string_of_nat [0..<length s]) (map (\<lambda>c. Str [c]) s)"
| "props _ = []"

definition for_in_values :: "jsval \<Rightarrow> jsval list" where
  "for_in_values x = map snd (props x)"

text \<open>
  The items of a container written back after its items have been worked on in place:
  an array or object keeps its keys; a string's characters cannot be changed.
\<close>

fun put_items :: "jsval \<Rightarrow> jsval list \<Rightarrow> jsval" where
  "put_items (Arr xs) ys = Arr ys"
| "put_items (Obj kvs) ys = Obj (zip (map fst kvs) ys)"
| "put_items x ys = x"

text \<open>
  \<^verbatim>\<open>if (errs.length)\<close>. The value tested comes from \<^verbatim>\<open>get_errors\<close>, which never gives
  null or undefined, so the read itself does not fail.
\<close>

fun has_length :: "jsval \<Rightarrow> bool" where
  "has_length (Arr xs) = (xs \<noteq> [])"
| "has_length (Str s) = (s \<noteq> [])"
| "has_length (Obj kvs) = truthy (lookup kvs ''length'')"
| "has_length _ = False"

section \<open>The page: controls, markup and the browser\<close>

text \<open>
  A form control as the DOM presents it: the \<^verbatim>\<open>type\<close>, \<^verbatim>\<open>id\<close>, \<^verbatim>\<open>value\<close> and
  \<^verbatim>\<open>checked\<close> properties, its CSS classes and, for a select, its options with their
  \<^verbatim>\<open>selected\<close> flags.
\<close>

record control =
  ctl_type :: string
  ctl_id :: string
  ctl_class :: "string list"
  ctl_value :: string
  ctl_checked :: bool
  ctl_options :: "(string \<times> bool) list"

text \<open>
  Markup is a tree of elements (tag, attributes, whether \<^verbatim>\<open>hide()\<close> has hidden it,
  children). Text that the helpers splice into a tag (labels, help texts, icons, error
  messages) is kept as it is and not searched by the selectors. The attribute values the
  helpers build from \<^verbatim>\<open>edwa.css_prefix\<close> are taken to be plain class names.
\<close>

datatype node =
    Element string "(string \<times> string) list" bool "node list"
  | Html string
  | Control control

definition elem :: "string \<Rightarrow> (string \<times> string) list \<Rightarrow> node list \<Rightarrow> node" where
  "elem t a ch = Element t a False ch"

text \<open>
  What belongs to jQuery and the browser, and not to this library, is a parameter:
  \<^item> \<open>parse_controls s\<close>: the elements \<^verbatim>\<open>$(s)\<close> builds from markup for form controls;
  \<^item> \<open>set_value t v\<close>: the text an element of type \<open>t\<close> holds after \<^verbatim>\<open>elem.value = v\<close>;
  \<^item> \<open>select_assign t opts flags\<close>: the options \<open>opts\<close> of an element of type \<open>t\<close> after
    \<^verbatim>\<open>option.selected = flag\<close> has been run on each in turn;
  \<^item> \<open>map_to_strings v\<close>: \<^verbatim>\<open>$.map(v, function(elem, idx) { return ""+elem; })\<close>, which throws
    on some values;
  \<^item> \<open>equals_zero s\<close>: the loose comparison \<^verbatim>\<open>s == 0\<close> of a text with the number zero;
  \<^item> \<open>inherits k\<close>: whether every object inherits a property named \<open>k\<close> from
    \<^verbatim>\<open>Object.prototype\<close> (\<^verbatim>\<open>constructor\<close>, \<^verbatim>\<open>toString\<close> and the like), so that
    \<^verbatim>\<open>k in obj\<close> holds without \<open>k\<close> being a key of \<open>obj\<close>.
\<close>

datatype js_error = TypeError | NotJson

record host =
  parse_controls :: "string \<Rightarrow> control list"
  set_value :: "string \<Rightarrow> jsval \<Rightarrow> string"
  select_assign :: "string \<Rightarrow> (string \<times> bool) list \<Rightarrow> bool list \<Rightarrow> (string \<times> bool) list"
  map_to_strings :: "jsval \<Rightarrow> js_error + string list"
  equals_zero :: "string \<Rightarrow> bool"
  inherits :: "string \<Rightarrow> bool"

text \<open>
  The error \<open>NotJson\<close> marks the edge of the model. Where a handler is given an array
  in the place of a context object, JavaScript would hang the named property on the
  array; where the name of a field is an inherited property and no key of the context,
  JavaScript would read the inherited function as the field's value. A JSON tree holds
  neither, so the model stops there and says so, with the data as they are.
\<close>

text \<open>The library's global object: \<^verbatim>\<open>edwa.css_prefix\<close> and \<^verbatim>\<open>edwa.jsonforms.next_id\<close>.\<close>

record edwa =
  css_prefix :: string
  next_id :: nat

definition initial_edwa :: edwa where
  "initial_edwa = \<lparr>css_prefix = ''edwa-'', next_id = 10000\<rparr>"

section \<open>make_input\<close>

text \<open>\<^verbatim>\<open>/^select/.test(type)\<close> and \<^verbatim>\<open>type == "checkbox" || type == "radio"\<close>.\<close>

definition is_select :: "string \<Rightarrow> bool" where
  "is_select t = (take 6 t = ''select'')"

definition is_checkable :: "string \<Rightarrow> bool" where
  "is_checkable t = (t = ''checkbox'' \<or> t = ''radio'')"

text \<open>The \<^verbatim>\<open>value\<close> property: for a select, the value of its first selected option.\<close>

definition dom_value :: "control \<Rightarrow> string" where
  "dom_value c =
     (if is_select (ctl_type c)
      then (case filter snd (ctl_options c) of [] \<Rightarrow> [] | ov # _ \<Rightarrow> fst ov)
      else ctl_value c)"

text \<open>
  Lines 41-50 of \<^verbatim>\<open>jsonforms.js\<close>: show the initial value \<open>v\<close> in the controls. Which
  branch runs is decided by the type of the first element; the select branch marks the
  options of every element.
\<close>

definition select_options :: "host \<Rightarrow> string list \<Rightarrow> control \<Rightarrow> control" where
  "select_options h vals c =
     (if ctl_options c = [] then c
      else c\<lparr>ctl_options :=
               select_assign h (ctl_type c) (ctl_options c)
                 (map (\<lambda>ov. fst ov \<in> set vals) (ctl_options c))\<rparr>)"

fun fill_controls :: "host \<Rightarrow> control list \<Rightarrow> jsval \<Rightarrow> js_error + control list" where
  "fill_controls h [] v = Inr []"
| "fill_controls h (c # rest) v =
     (if is_select (ctl_type c) then
        (case map_to_strings h v of
           Inl e \<Rightarrow> Inl e
         | Inr vals \<Rightarrow> Inr (map (select_options h vals) (c # rest)))
      else if is_checkable (ctl_type c) then Inr (c\<lparr>ctl_checked := truthy v\<rparr> # rest)
      else Inr (c\<lparr>ctl_value := set_value h (ctl_type c) v\<rparr> # rest))"

text \<open>Lines 65-75: what the change handler of one element stores under \<open>name\<close>.\<close>

definition control_data :: "control \<Rightarrow> jsval" where
  "control_data c =
     (if is_select (ctl_type c) then Arr (map (\<lambda>ov. Str (fst ov)) (filter snd (ctl_options c)))
      else if is_checkable (ctl_type c) then Bool (ctl_checked c)
      else Str (ctl_value c))"

text \<open>Line 76, \<^verbatim>\<open>.change()\<close>: the handler runs once for each element, in order.\<close>

definition change_sync :: "string \<Rightarrow> control list \<Rightarrow> dict \<Rightarrow> dict" where
  "change_sync name cs kvs = fold (\<lambda>c d. AList.update name (control_data c) d) cs kvs"

text \<open>Lines 52-60 and 157-163: the list of error messages, when there are any.\<close>

definition error_div :: "string \<Rightarrow> jsval \<Rightarrow> node list" where
  "error_div prefix errs =
     (if has_length errs
      then [elem ''div'' [(''class'', prefix @ ''error'')]
              [elem ''ul'' [] (map (\<lambda>e. elem ''li'' [] [Html (js_to_string e)]) (for_in_values errs))]]
      else [])"

text \<open>
  Lines 29-37, 64 and 77-81: the table row around the controls; \<open>type0\<close> is the type of
  the first of them.
\<close>

definition input_row ::
  "string \<Rightarrow> string \<Rightarrow> string \<Rightarrow> jsval \<Rightarrow> string \<Rightarrow> control list \<Rightarrow> node list
   \<Rightarrow> node" where
  "input_row prefix input_id label_text help_text type0 cs errs =
     (let label_th = elem ''th'' [(''align'', ''right'')]
            [elem ''div'' [(''class'', prefix @ ''label'')]
               [elem ''label'' [(''for'', input_id)] [Html label_text]]];
          help = (if truthy help_text
                  then [elem ''div'' [(''class'', prefix @ ''msgs'')] [Html (js_to_string help_text)]]
                  else []);
          msg_div = elem ''div'' [(''class'', prefix @ ''msgs'')] (help @ errs);
          input_div = elem ''div'' [(''class'', prefix @ ''input'')] (map Control cs);
          td = elem ''td'' [] [input_div, msg_div];
          th = (if type0 \<noteq> ''hidden'' then label_th
                else elem ''th'' [(''align'', ''right'')]
                       [elem ''div'' [(''class'', prefix @ ''label'')] []])
      in elem ''tr'' [(''valign'', ''top'')] [th, td])"

text \<open>
  The handler that \<^verbatim>\<open>make_input(name, label_text, help_text, input_str)\<close> returns, run on
  \<open>data\<close>. It gives back what it returns or throws, the library's state and \<open>data\<close> as it
  leaves them. The counter is advanced before anything can fail.
\<close>

definition make_input ::
  "host \<Rightarrow> string \<Rightarrow> string \<Rightarrow> jsval \<Rightarrow> string \<Rightarrow> edwa \<Rightarrow> jsval
   \<Rightarrow> (js_error + node) \<times> edwa \<times> jsval" where
  "make_input h name label_text help_text input_str st data =
     (let input_id = ''id_edwa_'' @ string_of_nat (next_id st);
          st1 = st\<lparr>next_id := next_id st + 1\<rparr>
      in case parse_controls h input_str of
           [] \<Rightarrow> (Inl TypeError, st1, data)
         | c # rest \<Rightarrow>
             (let cs = c\<lparr>ctl_id := input_id\<rparr> # rest
              in case data of
                   Obj kvs \<Rightarrow>
                     (if has_key kvs name then
                        (case fill_controls h cs (get_value (lookup kvs name)) of
                           Inl e \<Rightarrow> (Inl e, st1, data)
                         | Inr cs' \<Rightarrow>
                             (Inr (input_row (css_prefix st) input_id label_text help_text
                                     (ctl_type c) cs'
                                     (error_div (css_prefix st) (get_errors (lookup kvs name)))),
                              st1,
                              Obj (change_sync name cs'
                                     (AList.update name
                                        (js_or (get_value (lookup kvs name)) (Str [])) kvs))))
                      else if inherits h name then (Inl NotJson, st1, data)
                      else
                        (Inr (input_row (css_prefix st) input_id label_text help_text
                                (ctl_type c) cs []),
                         st1, Obj (change_sync name cs kvs)))
                 | Arr xs \<Rightarrow> (Inl NotJson, st1, data)
                 | _ \<Rightarrow> (Inl TypeError, st1, data)))"

section \<open>makeNestedForm\<close>

text \<open>
  \<^verbatim>\<open>$.extend(target, src)\<close> copies every property of \<open>src\<close> that is not undefined into
  \<open>target\<close>, over what is there; a \<open>src\<close> that is null or undefined is skipped.
\<close>

definition jq_extend :: "dict \<Rightarrow> jsval \<Rightarrow> dict" where
  "jq_extend target src =
     fold (\<lambda>kv t. if snd kv = Undefined then t else AList.update (fst kv) (snd kv) t)
       (props src) target"

text \<open>Lines 89-95: the options of a nested form, the caller's over the defaults.\<close>

definition nested_defaults :: dict where
  "nested_defaults =
     [(''allow_add'', Bool True), (''allow_remove'', Bool True),
      (''add_icon'', Str ''(+)''), (''remove_icon'', Str ''(-)''),
      (''_return_td'', Bool False)]"

definition makeNestedForm_extras :: "jsval \<Rightarrow> dict" where
  "makeNestedForm_extras extras = jq_extend nested_defaults extras"

text \<open>
  A template lists, in the order of its keys, handlers made by \<^verbatim>\<open>make_input\<close>
  (name, label text, help text, markup of the control) or by \<^verbatim>\<open>makeNestedForm\<close>
  (name, label, template, extras).
\<close>

datatype field =
    Input string string jsval string
  | Nested string string "field list" jsval

text \<open>
  Line 123, \<^verbatim>\<open>$("tr", table).first().prepend(x)\<close>: \<open>x\<close> becomes the first child of the
  first row below the table, in document order; nothing happens when there is no row.
\<close>

fun prepend_in :: "node \<Rightarrow> node \<Rightarrow> node option"
  and prepend_in_list :: "node \<Rightarrow> node list \<Rightarrow> node list option" where
  "prepend_in x (Element t a hid ch) =
     (if t = ''tr'' then Some (Element t a hid (x # ch))
      else map_option (Element t a hid) (prepend_in_list x ch))"
| "prepend_in x (Html s) = None"
| "prepend_in x (Control c) = None"
| "prepend_in_list x [] = None"
| "prepend_in_list x (n # ns) =
     (case prepend_in x n of
        Some n' \<Rightarrow> Some (n' # ns)
      | None \<Rightarrow> map_option ((#) n) (prepend_in_list x ns))"

definition prepend_first_tr :: "node \<Rightarrow> node list \<Rightarrow> node list" where
  "prepend_first_tr x rows = (case prepend_in_list x rows of Some rows' \<Rightarrow> rows' | None \<Rightarrow> rows)"

text \<open>The controls below a node, in document order.\<close>

fun controls_of :: "node \<Rightarrow> control list"
  and controls_of_list :: "node list \<Rightarrow> control list" where
  "controls_of (Element t a hid ch) = controls_of_list ch"
| "controls_of (Html s) = []"
| "controls_of (Control c) = [c]"
| "controls_of_list [] = []"
| "controls_of_list (n # ns) = controls_of n @ controls_of_list ns"

text \<open>
  Lines 129-136. The selector \<^verbatim>\<open>"."+edwa.css_prefix+"new-and-used"\<close> finds the controls of
  that class below the table, and \<^verbatim>\<open>.change()\<close> fires the change handlers of each, in
  document order. A path is the list of child positions from the table down.

  \<open>marked_sites\<close> lists those controls, each with the path of its closest table and of its
  closest row.
\<close>

definition marked :: "string \<Rightarrow> control \<Rightarrow> bool" where
  "marked prefix c = (prefix @ ''new-and-used'' \<in> set (ctl_class c))"

fun marked_sites ::
    "string \<Rightarrow> nat list \<Rightarrow> nat list \<Rightarrow> nat list option \<Rightarrow> node
     \<Rightarrow> (control \<times> nat list \<times> nat list option) list"
  and marked_sites_list ::
    "string \<Rightarrow> nat list \<Rightarrow> nat list \<Rightarrow> nat list option \<Rightarrow> nat \<Rightarrow> node list
     \<Rightarrow> (control \<times> nat list \<times> nat list option) list" where
  "marked_sites prefix here tbl tr (Element t a hid ch) =
     marked_sites_list prefix here
       (if t = ''table'' then here else tbl) (if t = ''tr'' then Some here else tr) 0 ch"
| "marked_sites prefix here tbl tr (Html s) = []"
| "marked_sites prefix here tbl tr (Control c) = (if marked prefix c then [(c, tbl, tr)] else [])"
| "marked_sites_list prefix here tbl tr i [] = []"
| "marked_sites_list prefix here tbl tr i (n # ns) =
     marked_sites prefix (here @ [i]) tbl tr n @ marked_sites_list prefix here tbl tr (Suc i) ns"

text \<open>
  \<open>mark_rows b tbl except\<close> sets the hidden flag of every row strictly below the table at
  path \<open>tbl\<close> to \<open>b\<close>, leaving out the row at path \<open>except\<close>.
\<close>

definition below :: "nat list \<Rightarrow> nat list \<Rightarrow> bool" where
  "below tbl here = (length tbl < length here \<and> take (length tbl) here = tbl)"

fun mark_rows :: "bool \<Rightarrow> nat list \<Rightarrow> nat list option \<Rightarrow> nat list \<Rightarrow> node \<Rightarrow> node"
  and mark_rows_list ::
    "bool \<Rightarrow> nat list \<Rightarrow> nat list option \<Rightarrow> nat list \<Rightarrow> nat \<Rightarrow> node list \<Rightarrow> node list" where
  "mark_rows b tbl except here (Element t a hid ch) =
     Element t a (if t = ''tr'' \<and> below tbl here \<and> except \<noteq> Some here then b else hid)
       (mark_rows_list b tbl except here 0 ch)"
| "mark_rows b tbl except here (Html s) = Html s"
| "mark_rows b tbl except here (Control c) = Control c"
| "mark_rows_list b tbl except here i [] = []"
| "mark_rows_list b tbl except here i (n # ns) =
     mark_rows b tbl except (here @ [i]) n # mark_rows_list b tbl except here (Suc i) ns"

text \<open>
  Lines 130-135, the handler bound here: a value equal to 0 shows every row of the closest
  table, any other value hides every row of it but the control's own.
\<close>

definition new_and_used :: "host \<Rightarrow> control \<times> nat list \<times> nat list option \<Rightarrow> node \<Rightarrow> node" where
  "new_and_used h site table =
     (case site of (c, tbl, tr) \<Rightarrow>
        if equals_zero h (dom_value c) then mark_rows False tbl None [] table
        else mark_rows True tbl tr [] table)"

definition sync_rows :: "host \<Rightarrow> string \<Rightarrow> node \<Rightarrow> node" where
  "sync_rows h prefix table = fold (new_and_used h) (marked_sites prefix [] [] None table) table"

text \<open>
  Firing the change handlers of those controls also runs the handler that \<^verbatim>\<open>make_input\<close>
  bound (lines 65-75), which stores the control's value under its name once more. For the
  controls of this table's own fields that writes into \<open>data\<close>; for the controls of tables
  nested deeper it repeats, into their own items, what their own tables did last.
\<close>

fun resync :: "string \<Rightarrow> (field \<times> node) list \<Rightarrow> dict \<Rightarrow> dict" where
  "resync prefix [] kvs = kvs"
| "resync prefix ((Input name label_text help_text input_str, row) # frs) kvs =
     resync prefix frs (change_sync name (filter (marked prefix) (controls_of row)) kvs)"
| "resync prefix ((Nested name label template extras, row) # frs) kvs = resync prefix frs kvs"

fun resync_item :: "string \<Rightarrow> (field \<times> node) list \<Rightarrow> jsval \<Rightarrow> jsval" where
  "resync_item prefix frs (Obj kvs) = Obj (resync prefix frs kvs)"
| "resync_item prefix frs x = x"

text \<open>Lines 107-138, \<^verbatim>\<open>make_table\<close>, once the rows of the template have been made.\<close>

definition make_table ::
  "host \<Rightarrow> string \<Rightarrow> dict \<Rightarrow> field list \<Rightarrow> node list \<Rightarrow> jsval \<Rightarrow> node" where
  "make_table h prefix extras template rows allow_remove =
     (let remove_this = elem ''a'' [(''href'', []), (''class'', prefix @ ''rm1'')]
            [Html (js_to_string (lookup extras ''remove_icon''))];
          cell = elem ''td'' [(''rowspan'', string_of_nat (length rows))] [remove_this];
          rows' = (if truthy allow_remove then prepend_first_tr cell rows else rows)
      in sync_rows h prefix
           (elem ''table''
              [(''border'', ''0''), (''cellspacing'', ''0''), (''cellpadding'', ''0''),
               (''class'', prefix @ ''nform'')] rows'))"

text \<open>Lines 102-104 and 146-171: the cell and row around the tables of a nested form.\<close>

definition nested_markup :: "string \<Rightarrow> dict \<Rightarrow> string \<Rightarrow> jsval \<Rightarrow> node list \<Rightarrow> node" where
  "nested_markup prefix extras label errs tables =
     (let add_one = elem ''a'' [(''href'', []), (''class'', prefix @ ''add1'')]
            [Html (js_to_string (lookup extras ''add_icon''))];
          input_div = elem ''div'' [(''class'', prefix @ ''input'')]
            (tables @ (if truthy (lookup extras ''allow_add'') then [add_one] else []));
          msgs = (case error_div prefix errs of
                    [] \<Rightarrow> []
                  | ds \<Rightarrow> [elem ''div'' [(''class'', prefix @ ''msgs'')] ds]);
          td = elem ''td'' [] (input_div # msgs);
          label_td = elem ''th'' [(''align'', ''right'')]
            [elem ''div'' [(''class'', prefix @ ''label'')] [Html ('' '' @ label @ '' '')]]
      in if truthy (lookup extras ''_return_td'') then td
         else elem ''tr'' [(''valign'', ''top'')] [label_td, td])"

text \<open>
  The handlers. \<open>field_handler\<close> runs the handler of one template entry on \<open>data\<close>; for a
  nested form this is the function \<^verbatim>\<open>handler(all_data)\<close> of lines 96-172.
  \<open>template_rows\<close> is the loop of lines 110-114 over the template, \<open>item_tables\<close> the loop
  of lines 141-145 over the items of the data list. Each gives back what it returns or
  throws, the library's state and the data as the call leaves it: an exception ends every
  loop at once, and what was written before it stays written.
\<close>

fun field_handler ::
    "host \<Rightarrow> field \<Rightarrow> edwa \<Rightarrow> jsval \<Rightarrow> (js_error + node) \<times> edwa \<times> jsval"
  and template_rows ::
    "host \<Rightarrow> field list \<Rightarrow> edwa \<Rightarrow> jsval \<Rightarrow> (js_error + node list) \<times> edwa \<times> jsval"
  and item_tables ::
    "host \<Rightarrow> field list \<Rightarrow> dict \<Rightarrow> edwa \<Rightarrow> jsval list
     \<Rightarrow> (js_error + node list) \<times> edwa \<times> jsval list" where
  "field_handler h (Input name label_text help_text input_str) st data =
     make_input h name label_text help_text input_str st data"
| "field_handler h (Nested name label template extras) st data =
     (case data of
        Obj all_data \<Rightarrow>
          (if \<not> has_key all_data name \<and> inherits h name then (Inl NotJson, st, data)
           else
             (let all_data1 = (if has_key all_data name then all_data
                               else AList.update name (Arr []) all_data);
                  errs = get_errors (lookup all_data1 name);
                  data_list = js_or (get_value (lookup all_data1 name)) (Arr []);
                  ex = makeNestedForm_extras extras
              in case item_tables h template ex st (for_in_values data_list) of
                   (Inl e, st', items) \<Rightarrow>
                     (Inl e, st', Obj (AList.update name (put_items data_list items) all_data1))
                 | (Inr tables, st', items) \<Rightarrow>
                     (Inr (nested_markup (css_prefix st') ex label errs tables), st',
                      Obj (AList.update name (put_items data_list items) all_data1))))
      | Arr xs \<Rightarrow> (Inl NotJson, st, data)
      | _ \<Rightarrow> (Inl TypeError, st, data))"
| "template_rows h [] st data = (Inr [], st, data)"
| "template_rows h (f # fs) st data =
     (case field_handler h f st data of
        (Inl e, st', data') \<Rightarrow> (Inl e, st', data')
      | (Inr row, st', data') \<Rightarrow>
          (case template_rows h fs st' data' of
             (Inl e, st'', data'') \<Rightarrow> (Inl e, st'', data'')
           | (Inr rows, st'', data'') \<Rightarrow> (Inr (row # rows), st'', data'')))"
| "item_tables h template ex st [] = (Inr [], st, [])"
| "item_tables h template ex st (d # ds) =
     (case template_rows h template st d of
        (Inl e, st', d') \<Rightarrow> (Inl e, st', d' # ds)
      | (Inr rows, st', d') \<Rightarrow>
          (let table = make_table h (css_prefix st') ex template rows (lookup ex ''allow_remove'');
               d'' = resync_item (css_prefix st') (zip template rows) d'
           in case item_tables h template ex st' ds of
                (Inl e, st'', ds') \<Rightarrow> (Inl e, st'', d'' # ds')
              | (Inr tables, st'', ds') \<Rightarrow> (Inr (table # tables), st'', d'' # ds')))"

text \<open>The handler \<^verbatim>\<open>makeNestedForm(name, label, template, extras)\<close> returns.\<close>

definition makeNestedForm ::
  "host \<Rightarrow> string \<Rightarrow> string \<Rightarrow> field list \<Rightarrow> jsval \<Rightarrow> edwa \<Rightarrow> jsval
   \<Rightarrow> (js_error + node) \<times> edwa \<times> jsval" where
  "makeNestedForm h name label template extras st all_data =
     field_handler h (Nested name label template extras) st all_data"

section \<open>make_jsonform\<close>

text \<open>
  Lines 178-182, \<^verbatim>\<open>$.extend(extras, {allow_add: false, allow_remove: false, _return_td: true})\<close>.
  The first argument is the target: an object is written into and returned, so the
  caller's object changes; a value that is falsy or no object is replaced by a new object.
  The result is the object the form goes on with, and the caller's \<open>extras\<close> as the call
  leaves it. With an array or with \<open>true\<close> (which \<^verbatim>\<open>$.extend\<close> reads as its deep-copy
  flag) the target is no JSON tree.
\<close>

definition jsonform_overrides :: dict where
  "jsonform_overrides =
     [(''allow_add'', Bool False), (''allow_remove'', Bool False), (''_return_td'', Bool True)]"

fun jsonform_extras :: "jsval \<Rightarrow> js_error + dict \<times> jsval" where
  "jsonform_extras (Obj kvs) =
     Inr (jq_extend kvs (Obj jsonform_overrides), Obj (jq_extend kvs (Obj jsonform_overrides)))"
| "jsonform_extras (Arr xs) = Inl NotJson"
| "jsonform_extras (Bool True) = Inl NotJson"
| "jsonform_extras x = Inr (jq_extend [] (Obj jsonform_overrides), x)"

text \<open>Line 184: \<^verbatim>\<open>data.length\<close>, the loose comparison with 0, and \<^verbatim>\<open>data.push({})\<close>.\<close>

fun data_length :: "jsval \<Rightarrow> js_error + jsval" where
  "data_length Undefined = Inl TypeError"
| "data_length Null = Inl TypeError"
| "data_length (Arr xs) = Inr (Num (int (length xs)))"
| "data_length (Str s) = Inr (Num (int (length s)))"
| "data_length (Obj kvs) = Inr (lookup kvs ''length'')"
| "data_length _ = Inr Undefined"

fun loose_eq_zero :: "host \<Rightarrow> jsval \<Rightarrow> bool" where
  "loose_eq_zero h (Num n) = (n = 0)"
| "loose_eq_zero h (Str s) = equals_zero h s"
| "loose_eq_zero h (Bool b) = (\<not> b)"
| "loose_eq_zero h (Arr xs) = equals_zero h (js_to_string (Arr xs))"
| "loose_eq_zero h _ = False"

fun push_empty :: "jsval \<Rightarrow> js_error + jsval" where
  "push_empty (Arr xs) = Inr (Arr (xs @ [Obj []]))"
| "push_empty _ = Inl TypeError"

definition ensure_item :: "host \<Rightarrow> jsval \<Rightarrow> js_error + jsval" where
  "ensure_item h data =
     (case data_length data of
        Inl e \<Rightarrow> Inl e
      | Inr n \<Rightarrow> if loose_eq_zero h n then push_empty data else Inr data)"

text \<open>Line 186, \<^verbatim>\<open>td.children().first().children()\<close>.\<close>

fun children :: "node \<Rightarrow> node list" where
  "children (Element t a hid ch) = ch"
| "children _ = []"

definition first_children :: "node \<Rightarrow> node list" where
  "first_children td = (case children td of [] \<Rightarrow> [] | n # _ \<Rightarrow> children n)"

text \<open>
  \<^verbatim>\<open>make_jsonform(data, template, extras)\<close>. It gives back what it returns or throws, the
  library's state, the data list of the form as the call leaves it, and the caller's
  \<open>extras\<close> as the call leaves it.
\<close>

definition make_jsonform ::
  "host \<Rightarrow> jsval \<Rightarrow> field list \<Rightarrow> jsval \<Rightarrow> edwa
   \<Rightarrow> (js_error + node list) \<times> edwa \<times> jsval \<times> jsval" where
  "make_jsonform h data template extras st =
     (case jsonform_extras extras of
        Inl e \<Rightarrow> (Inl e, st, get_value data, extras)
      | Inr (ex, extras') \<Rightarrow>
          (case ensure_item h (get_value data) of
             Inl e \<Rightarrow> (Inl e, st, get_value data, extras')
           | Inr data1 \<Rightarrow>
               (case makeNestedForm h ''x'' ''x'' template (Obj ex) st (Obj [(''x'', data1)]) of
                  (Inl e, st', all_data) \<Rightarrow> (Inl e, st', get_prop all_data ''x'', extras')
                | (Inr td, st', all_data) \<Rightarrow>
                    (Inr (first_children td), st', get_prop all_data ''x'', extras'))))"

section \<open>The earlier revision of the helpers\<close>

text \<open>
  The repository holds a second, earlier copy of \<^verbatim>\<open>jsonforms.js\<close>. It has the same
  \<^verbatim>\<open>get_value\<close> and \<^verbatim>\<open>get_errors\<close>; its other helpers differ and are modelled here under
  the same names with a \<open>0\<close> appended. Line numbers in this section are those of that copy.
\<close>

text \<open>
  Lines 23-58. The id is put on the jQuery object (\<^verbatim>\<open>input.id\<close>), so only the label
  carries it. The initial value always goes into the \<^verbatim>\<open>value\<close> of the first element,
  and the change handler is bound but not fired.
\<close>

definition input_row0 ::
  "string \<Rightarrow> string \<Rightarrow> string \<Rightarrow> jsval \<Rightarrow> control list \<Rightarrow> node list \<Rightarrow> node" where
  "input_row0 prefix input_id label_text help_text cs errs =
     (let label_th = elem ''th'' [(''align'', ''right'')]
            [elem ''div'' [(''class'', prefix @ ''label'')]
               [elem ''label'' [(''for'', input_id)] [Html label_text]]];
          help = (if truthy help_text
                  then [elem ''div'' [(''class'', prefix @ ''msgs'')] [Html (js_to_string help_text)]]
                  else []);
          msg_div = elem ''div'' [(''class'', prefix @ ''msgs'')] (help @ errs);
          input_div = elem ''div'' [(''class'', prefix @ ''input'')] (map Control cs);
          td = elem ''td'' [] [input_div, msg_div]
      in elem ''tr'' [(''valign'', ''top'')] [label_th, td])"

definition make_input0 ::
  "host \<Rightarrow> string \<Rightarrow> string \<Rightarrow> jsval \<Rightarrow> string \<Rightarrow> edwa \<Rightarrow> jsval
   \<Rightarrow> (js_error + node) \<times> edwa \<times> jsval" where
  "make_input0 h name label_text help_text input_str st data =
     (let input_id = ''id_edwa_'' @ string_of_nat (next_id st);
          st1 = st\<lparr>next_id := next_id st + 1\<rparr>;
          cs = parse_controls h input_str
      in case data of
           Obj kvs \<Rightarrow>
             (if has_key kvs name then
                (case cs of
                   [] \<Rightarrow> (Inl TypeError, st1, data)
                 | c # rest \<Rightarrow>
                     (Inr (input_row0 (css_prefix st) input_id label_text help_text
                             (c\<lparr>ctl_value :=
                                  set_value h (ctl_type c) (get_value (lookup kvs name))\<rparr> # rest)
                             (error_div (css_prefix st) (get_errors (lookup kvs name)))),
                      st1,
                      Obj (AList.update name
                             (js_or (get_value (lookup kvs name)) (Str [])) kvs)))
              else if inherits h name then (Inl NotJson, st1, data)
              else (Inr (input_row0 (css_prefix st) input_id label_text help_text cs []),
                    st1, data))
         | Arr xs \<Rightarrow> (Inl NotJson, st1, data)
         | _ \<Rightarrow> (Inl TypeError, st1, data))"

text \<open>Lines 84-103, \<^verbatim>\<open>make_table\<close>, once the rows of the template have been made.\<close>

definition make_table0 :: "dict \<Rightarrow> node list \<Rightarrow> jsval \<Rightarrow> node" where
  "make_table0 extras rows allow_remove =
     (let remove_this = elem ''a'' [(''href'', [])]
            [Html (js_to_string (lookup extras ''remove_icon''))];
          cell = elem ''td'' [(''rowspan'', string_of_nat (length rows))] [remove_this];
          rows' = (if truthy allow_remove then prepend_first_tr cell rows else rows)
      in elem ''table''
           [(''border'', ''0''), (''cellspacing'', ''0''), (''cellpadding'', ''0'')] rows')"

text \<open>Lines 81 and 111-133: the cell and row around the tables of a nested form.\<close>

definition nested_markup0 :: "dict \<Rightarrow> string \<Rightarrow> jsval \<Rightarrow> node list \<Rightarrow> node" where
  "nested_markup0 extras label errs tables =
     (let add_one = elem ''a'' [(''href'', [])]
            [Html (js_to_string (lookup extras ''add_icon''))];
          err_ul = (if has_length errs
                    then [elem ''ul'' []
                            (map (\<lambda>e. elem ''li'' [] [Html (js_to_string e)]) (for_in_values errs))]
                    else []);
          td = elem ''td'' []
            (tables @ err_ul @ (if truthy (lookup extras ''allow_add'') then [add_one] else []));
          label_td = elem ''th'' [(''align'', ''right'')] [Html ('' '' @ label @ '' '')]
      in if truthy (lookup extras ''_return_td'') then td
         else elem ''tr'' [(''valign'', ''top'')] [label_td, td])"

text \<open>
  The handlers of the earlier revision: \<^verbatim>\<open>handler(all_data)\<close> of lines 75-134, the loop
  of lines 87-91 over the template and the loop of lines 106-110 over the items.
\<close>

fun field_handler0 ::
    "host \<Rightarrow> field \<Rightarrow> edwa \<Rightarrow> jsval \<Rightarrow> (js_error + node) \<times> edwa \<times> jsval"
  and template_rows0 ::
    "host \<Rightarrow> field list \<Rightarrow> edwa \<Rightarrow> jsval \<Rightarrow> (js_error + node list) \<times> edwa \<times> jsval"
  and item_tables0 ::
    "host \<Rightarrow> field list \<Rightarrow> dict \<Rightarrow> edwa \<Rightarrow> jsval list
     \<Rightarrow> (js_error + node list) \<times> edwa \<times> jsval list" where
  "field_handler0 h (Input name label_text help_text input_str) st data =
     make_input0 h name label_text help_text input_str st data"
| "field_handler0 h (Nested name label template extras) st data =
     (case data of
        Obj all_data \<Rightarrow>
          (if \<not> has_key all_data name \<and> inherits h name then (Inl NotJson, st, data)
           else
             (let all_data1 = (if has_key all_data name then all_data
                               else AList.update name (Arr []) all_data);
                  errs = get_errors (lookup all_data1 name);
                  data_list = js_or (get_value (lookup all_data1 name)) (Arr []);
                  ex = makeNestedForm_extras extras
              in case item_tables0 h template ex st (for_in_values data_list) of
                   (Inl e, st', items) \<Rightarrow>
                     (Inl e, st', Obj (AList.update name (put_items data_list items) all_data1))
                 | (Inr tables, st', items) \<Rightarrow>
                     (Inr (nested_markup0 ex label errs tables), st',
                      Obj (AList.update name (put_items data_list items) all_data1))))
      | Arr xs \<Rightarrow> (Inl NotJson, st, data)
      | _ \<Rightarrow> (Inl TypeError, st, data))"
| "template_rows0 h [] st data = (Inr [], st, data)"
| "template_rows0 h (f # fs) st data =
     (case field_handler0 h f st data of
        (Inl e, st', data') \<Rightarrow> (Inl e, st', data')
      | (Inr row, st', data') \<Rightarrow>
          (case template_rows0 h fs st' data' of
             (Inl e, st'', data'') \<Rightarrow> (Inl e, st'', data'')
           | (Inr rows, st'', data'') \<Rightarrow> (Inr (row # rows), st'', data'')))"
| "item_tables0 h template ex st [] = (Inr [], st, [])"
| "item_tables0 h template ex st (d # ds) =
     (case template_rows0 h template st d of
        (Inl e, st', d') \<Rightarrow> (Inl e, st', d' # ds)
      | (Inr rows, st', d') \<Rightarrow>
          (case item_tables0 h template ex st' ds of
             (Inl e, st'', ds') \<Rightarrow> (Inl e, st'', d' # ds')
           | (Inr tables, st'', ds') \<Rightarrow>
               (Inr (make_table0 ex rows (lookup ex ''allow_remove'') # tables), st'',
                d' # ds')))"

definition makeNestedForm0 ::
  "host \<Rightarrow> string \<Rightarrow> string \<Rightarrow> field list \<Rightarrow> jsval \<Rightarrow> edwa \<Rightarrow> jsval
   \<Rightarrow> (js_error + node) \<times> edwa \<times> jsval" where
  "makeNestedForm0 h name label template extras st all_data =
     field_handler0 h (Nested name label template extras) st all_data"

text \<open>
  Lines 139-147, \<^verbatim>\<open>make_jsonform(data, template, extras)\<close>: the form is laid out over
  \<^verbatim>\<open>{x: [data]}\<close> and all children of the cell are returned. The third component is
  \<open>data\<close> as the call leaves it.
\<close>

fun first_item :: "jsval \<Rightarrow> jsval \<Rightarrow> jsval" where
  "first_item data (Arr (d # ds)) = d"
| "first_item data x = data"

definition make_jsonform0 ::
  "host \<Rightarrow> jsval \<Rightarrow> field list \<Rightarrow> jsval \<Rightarrow> edwa
   \<Rightarrow> (js_error + node list) \<times> edwa \<times> jsval \<times> jsval" where
  "make_jsonform0 h data template extras st =
     (case jsonform_extras extras of
        Inl e \<Rightarrow> (Inl e, st, data, extras)
      | Inr (ex, extras') \<Rightarrow>
          (case makeNestedForm0 h ''x'' ''x'' template (Obj ex) st (Obj [(''x'', Arr [data])]) of
             (Inl e, st', all_data) \<Rightarrow>
               (Inl e, st', first_item data (get_prop all_data ''x''), extras')
           | (Inr td, st', all_data) \<Rightarrow>
               (Inr (children td), st', first_item data (get_prop all_data ''x''), extras')))"

section \<open>A small browser\<close>

text \<open>
  A browser to run the handlers against: it knows one text input, one checkbox and one
  select with the options a and b, stores a value as the text \<^verbatim>\<open>"" + v\<close> (nothing for
  null), keeps the selected flags as they are assigned, maps arrays only, takes the
  empty text and \<^verbatim>\<open>"0"\<close> as equal to zero, and lets objects inherit four properties.
\<close>

definition text_input :: control where
  "text_input = \<lparr>ctl_type = ''text'', ctl_id = [], ctl_class = [], ctl_value = [],
                  ctl_checked = False, ctl_options = []\<rparr>"

definition checkbox :: control where
  "checkbox = \<lparr>ctl_type = ''checkbox'', ctl_id = [], ctl_class = [], ctl_value = ''on'',
                ctl_checked = False, ctl_options = []\<rparr>"

definition select_ab :: control where
  "select_ab = \<lparr>ctl_type = ''select-one'', ctl_id = [], ctl_class = [''edwa-new-and-used''],
                 ctl_value = [], ctl_checked = False,
                 ctl_options = [(''a'', True), (''b'', False)]\<rparr>"

definition small_browser :: host where
  "small_browser =
     \<lparr>parse_controls = (\<lambda>s. if s = ''<input type=text>'' then [text_input]
                             else if s = ''<input type=checkbox>'' then [checkbox]
                             else if s = ''<select class=edwa-new-and-used>'' then [select_ab]
                             else []),
      set_value = (\<lambda>t v. if v = Null then [] else js_to_string v),
      select_assign = (\<lambda>t opts flags. zip (map fst opts) flags),
      map_to_strings = (\<lambda>v. case v of Arr xs \<Rightarrow> Inr (map js_to_string xs) | _ \<Rightarrow> Inl TypeError),
      equals_zero = (\<lambda>s. s = [] \<or> s = ''0''),
      inherits = (\<lambda>k. k \<in> set [''constructor'', ''toString'', ''valueOf'', ''hasOwnProperty''])\<rparr>"

section \<open>Reading a context\<close>

text \<open>The binding of a key in a context: its value, or none when the key is absent.\<close>

definition binding :: "jsval \<Rightarrow> string \<Rightarrow> jsval option" where
  "binding data k = (case data of Obj kvs \<Rightarrow> map_of kvs k | _ \<Rightarrow> None)"


section \<open>Markup without the generated ids\<close>

text \<open>
  The ids that \<^verbatim>\<open>make_input\<close> generates from the counter appear in two places: the
  \<^verbatim>\<open>id\<close> of a control and the \<^verbatim>\<open>for\<close> attribute of its label. \<open>forget_ids\<close> blanks both.
\<close>

definition forget_id :: "control \<Rightarrow> control" where
  "forget_id c = c\<lparr>ctl_id := []\<rparr>"

definition forget_for :: "string \<times> string \<Rightarrow> string \<times> string" where
  "forget_for kv = (if fst kv = ''for'' then (fst kv, []) else kv)"



section \<open>The navigation engine\<close>

text \<open>
  The engine and the transport backends are the Python core of the library. That code
  is not among the source files, only its README is; the definitions of this section and
  the next follow the words of the specification.
\<close>

text \<open>
  Modelled from the spec: the Frame of section 3, whose Python class is missing. It holds
  the reference of its view, its context (a mapping from string keys to values), the
  optional reference of the handler to invoke on return, and the return context kept
  for that handler.
\<close>

record frame =
  view_reference :: string
  frame_context :: dict
  return_handler_reference :: "string option"
  return_context :: dict

text \<open>
  Modelled from the spec: the state of the navigation engine, whose Python class is
  missing. It holds the Call Stack of section 3, a list with the top frame first, and the
  list of the return handlers the engine has invoked, each with its two arguments, oldest
  first.
\<close>

record engine =
  stack :: "frame list"
  invoked :: "(string \<times> jsval \<times> dict) list"

text \<open>
  Modelled from the spec: the error taxonomy of section 7, whose Python exceptions are
  missing.
\<close>

datatype edwa_error =
  SignatureError | CodecError | NotFoundError | ProtocolViolation | EmptyStackError

text \<open>
  Modelled from the spec: the registry that resolves the reference of a return handler
  (section 9), missing with the engine. The handler is run against the context of the new
  top frame with the returned value and the return context, and gives the context as it
  leaves it.
\<close>

type_synonym registry = "string \<Rightarrow> dict \<Rightarrow> jsval \<Rightarrow> dict \<Rightarrow> dict"

text \<open>
  Modelled from the spec: the primitive \<^verbatim>\<open>call(view_reference, context,
  return_handler_reference, return_context)\<close> of section 4.4, missing with the engine. It
  pushes a new frame that records the handler and the return context.
\<close>

definition do_call :: "string \<Rightarrow> dict \<Rightarrow> string option \<Rightarrow> dict \<Rightarrow> engine \<Rightarrow> engine" where
  "do_call view ctx handler rctx s =
     s\<lparr>stack := \<lparr>view_reference = view, frame_context = ctx,
                  return_handler_reference = handler, return_context = rctx\<rparr> # stack s\<rparr>"

text \<open>
  Modelled from the spec: the primitive \<^verbatim>\<open>return(value)\<close> of section 4.4, missing with the
  engine. It pops the top frame, and fails with \<open>EmptyStackError\<close> if the stack would
  become empty; it invokes the popped frame's return handler against the new top frame,
  passing the value and the popped frame's return context.
\<close>

fun do_return :: "registry \<Rightarrow> jsval \<Rightarrow> engine \<Rightarrow> edwa_error + engine" where
  "do_return reg v s =
     (case stack s of
        [] \<Rightarrow> Inl EmptyStackError
      | [f] \<Rightarrow> Inl EmptyStackError
      | f # g # rest \<Rightarrow>
          (case return_handler_reference f of
             None \<Rightarrow> Inr (s\<lparr>stack := g # rest\<rparr>)
           | Some handler \<Rightarrow>
               Inr (s\<lparr>stack :=
                        g\<lparr>frame_context :=
                            reg handler (frame_context g) v (return_context f)\<rparr> # rest,
                      invoked := invoked s @ [(handler, v, return_context f)]\<rparr>)))"

section \<open>The transport backends\<close>

text \<open>Modelled from the spec: the three backends of section 4.3, missing Python classes.\<close>

datatype backend = GET | POST | Database

text \<open>
  Modelled from the spec: the configuration of section 6 as far as the choice of the
  backend reads it (whether the Database is configured, and the size threshold of GET);
  the Python configuration is missing.
\<close>

record config =
  database_configured :: bool
  get_threshold :: nat

text \<open>
  Modelled from the spec: the choice of the backend, missing Python code, by the rule of
  section 4.3: "always Database if configured; else GET unless over threshold, else POST".
\<close>

definition choose_backend :: "nat \<Rightarrow> config \<Rightarrow> backend" where
  "choose_backend n cfg =
     (if database_configured cfg then Database
      else if get_threshold cfg < n then POST
      else GET)"

text \<open>
  Modelled from the spec: the Token of section 3, missing with the backends: the encoded
  envelope in a URL query parameter (GET) or in a hidden form field (POST), or the
  identifier of a stored envelope (Database).
\<close>

datatype token = UrlParameter string | FormField string | Identifier nat

text \<open>Modelled from the spec: the signal by which GET's \<^verbatim>\<open>publish\<close> asks for POST.\<close>

datatype fallback = Fallback

text \<open>
  Modelled from the spec: the blob store behind the Database backend (section 6), missing
  with it: the stored envelopes by identifier, and the next fresh identifier.
\<close>

record blob_store =
  blobs :: "(nat \<times> string) list"
  next_identifier :: nat

text \<open>
  Modelled from the spec: \<^verbatim>\<open>publish\<close> of the GET backend, missing Python code. It measures
  the encoded length first and signals fallback when it exceeds the threshold. The
  encoded envelope is the text \<open>enc\<close>.
\<close>

definition get_publish :: "nat \<Rightarrow> string \<Rightarrow> fallback + token" where
  "get_publish threshold enc =
     (if threshold < length enc then Inl Fallback else Inr (UrlParameter enc))"

text \<open>
  Modelled from the spec: \<^verbatim>\<open>publish\<close> of the POST backend, missing Python code; it has no
  size ceiling.
\<close>

definition post_publish :: "string \<Rightarrow> token" where
  "post_publish enc = FormField enc"

text \<open>
  Modelled from the spec: \<^verbatim>\<open>publish\<close> of the Database backend, missing Python code. It
  stores the envelope under a fresh identifier and gives that identifier as the token.
\<close>

definition database_publish :: "string \<Rightarrow> blob_store \<Rightarrow> token \<times> blob_store" where
  "database_publish enc db =
     (Identifier (next_identifier db),
      db\<lparr>blobs := (next_identifier db, enc) # blobs db,
         next_identifier := next_identifier db + 1\<rparr>)"

text \<open>
  Modelled from the spec: the caller of the backends, missing Python code. It publishes
  through the Database when it is configured, else through GET, and publishes again
  through POST when GET signals fallback.
\<close>

definition publish :: "config \<Rightarrow> string \<Rightarrow> blob_store \<Rightarrow> backend \<times> token \<times> blob_store" where
  "publish cfg enc db =
     (if database_configured cfg
      then (case database_publish enc db of (t, db') \<Rightarrow> (Database, t, db'))
      else (case get_publish (get_threshold cfg) enc of
              Inl Fallback \<Rightarrow> (POST, post_publish enc, db)
            | Inr t \<Rightarrow> (GET, t, db)))"

text \<open>
  Modelled from the spec: the text a token carries to the client, the encoded envelope
  for GET and POST; tokens are missing with the backends.
\<close>

fun token_text :: "token \<Rightarrow> string option" where
  "token_text (UrlParameter s) = Some s"
| "token_text (FormField s) = Some s"
| "token_text (Identifier n) = None"

section \<open>Properties of the unwrapping helpers\<close>

lemma get_value_not_plain: "\<not> isPlainObject x \<Longrightarrow> get_value x = x"
  by (simp add: get_value_def)

lemma get_errors_not_plain: "\<not> isPlainObject x \<Longrightarrow> get_errors x = Arr []"
  by (simp add: get_errors_def)

lemma get_errors_never_falsy: "truthy (get_errors x)"
  by (simp add: get_errors_def js_or_def)

text \<open>
  Claim C8, as stated: on a plain object \<^verbatim>\<open>get_errors\<close> returns \<^verbatim>\<open>x.errors\<close> whenever
  the property is present, and the result of \<^verbatim>\<open>get_errors\<close> is always a sequence.
  Both parts fail. For \<^verbatim>\<open>{errors: 0}\<close> the property is present, yet \<^verbatim>\<open>0 || []\<close> is the
  empty array; for \<^verbatim>\<open>{errors: 5}\<close> the result is the number 5, which is no sequence.
\<close>

theorem get_errors_counterexample:
  "has_key [(''errors'', Num 0)] ''errors''
   \<and> get_errors (Obj [(''errors'', Num 0)]) \<noteq> get_prop (Obj [(''errors'', Num 0)]) ''errors''
   \<and> get_errors (Obj [(''errors'', Num 5)]) = Num 5
   \<and> \<not> is_sequence (get_errors (Obj [(''errors'', Num 5)]))"
  by (simp add: get_errors_def js_or_def has_key_def lookup_def)

text \<open>
  Claim C8, amended: \<^verbatim>\<open>get_value\<close> and \<^verbatim>\<open>get_errors\<close> are total. On a value that is not a
  plain object, \<^verbatim>\<open>get_value\<close> is the identity and \<^verbatim>\<open>get_errors\<close> gives the empty array.
  On a plain object, \<^verbatim>\<open>get_value\<close> gives \<^verbatim>\<open>x.value\<close> (undefined when absent) and
  \<^verbatim>\<open>get_errors\<close> gives \<^verbatim>\<open>x.errors\<close> when that is truthy and the empty array otherwise
  (absent, or present and falsy). The result of \<^verbatim>\<open>get_errors\<close> is a sequence whenever
  \<^verbatim>\<open>x.errors\<close> is absent, falsy or itself a sequence.
\<close>

theorem get_value_get_errors_spec:
  "(\<not> isPlainObject x \<longrightarrow> get_value x = x \<and> get_errors x = Arr [])
   \<and> (isPlainObject x \<longrightarrow>
        get_value x = get_prop x ''value''
        \<and> (truthy (get_prop x ''errors'') \<longrightarrow> get_errors x = get_prop x ''errors'')
        \<and> (\<not> truthy (get_prop x ''errors'') \<longrightarrow> get_errors x = Arr []))
   \<and> (\<not> truthy (get_prop x ''errors'') \<or> is_sequence (get_prop x ''errors'')
        \<longrightarrow> is_sequence (get_errors x))"
  by (cases x) (auto simp: get_value_def get_errors_def js_or_def)

theorem get_value_get_errors_spec_witness:
  "\<not> isPlainObject (Num 7) \<and> get_value (Num 7) = Num 7 \<and> get_errors (Num 7) = Arr []
   \<and> isPlainObject (Obj [(''value'', Str ''a''), (''errors'', Arr [Str ''bad''])])
   \<and> get_value (Obj [(''value'', Str ''a''), (''errors'', Arr [Str ''bad''])]) = Str ''a''
   \<and> truthy (get_prop (Obj [(''value'', Str ''a''), (''errors'', Arr [Str ''bad''])]) ''errors'')
   \<and> get_errors (Obj [(''value'', Str ''a''), (''errors'', Arr [Str ''bad''])]) = Arr [Str ''bad'']
   \<and> is_sequence (get_errors (Obj [(''value'', Str ''a''), (''errors'', Arr [Str ''bad''])]))
   \<and> isPlainObject (Obj [(''value'', Str ''a'')])
   \<and> \<not> truthy (get_prop (Obj [(''value'', Str ''a'')]) ''errors'')
   \<and> get_errors (Obj [(''value'', Str ''a'')]) = Arr []"
  using get_value_get_errors_spec [of "Num 7"]
    get_value_get_errors_spec [of "Obj [(''value'', Str ''a''), (''errors'', Arr [Str ''bad''])]"]
    get_value_get_errors_spec [of "Obj [(''value'', Str ''a'')]"]
  by (simp add: lookup_def)


section \<open>What a handler does to its context\<close>

text \<open>
  The equation of the nested handler is long; it is unfolded only where a proof asks for
  it.
\<close>

declare field_handler.simps(2) [simp del]
declare field_handler0.simps(2) [simp del]

text \<open>A handler writes under its own name only.\<close>

lemma map_of_change_sync:
  "k \<noteq> name \<Longrightarrow> map_of (change_sync name cs kvs) k = map_of kvs k"
  unfolding change_sync_def
  by (induction cs arbitrary: kvs) (simp_all add: update_conv')

lemma binding_make_input:
  "k \<noteq> name \<Longrightarrow>
   binding (snd (snd (make_input h name label_text help_text input_str st data))) k
   = binding data k"
  by (auto simp: make_input_def binding_def Let_def map_of_change_sync update_conv'
      split: list.splits jsval.splits sum.splits)

lemma binding_make_input0:
  "k \<noteq> name \<Longrightarrow>
   binding (snd (snd (make_input0 h name label_text help_text input_str st data))) k
   = binding data k"
  by (auto simp: make_input0_def binding_def Let_def update_conv'
      split: list.splits jsval.splits sum.splits)

lemma binding_nested:
  "k \<noteq> name \<Longrightarrow>
   binding (snd (snd (field_handler h (Nested name label template extras) st data))) k
   = binding data k"
  by (cases data)
    (auto simp: field_handler.simps(2) field_handler0.simps(2) binding_def Let_def update_conv'
      split: prod.splits sum.splits)

lemma binding_nested0:
  "k \<noteq> name \<Longrightarrow>
   binding (snd (snd (field_handler0 h (Nested name label template extras) st data))) k
   = binding data k"
  by (cases data)
    (auto simp: field_handler.simps(2) field_handler0.simps(2) binding_def Let_def update_conv'
      split: prod.splits sum.splits)
















section \<open>Rendering and the bindings of the context\<close>

text \<open>The definitions that evaluating a handler on a given context unfolds.\<close>

lemmas eval_defs = make_input_def make_input0_def small_browser_def text_input_def initial_edwa_def has_key_def
      lookup_def get_value_def get_errors_def js_or_def is_select_def is_checkable_def
      change_sync_def control_data_def binding_def Let_def makeNestedForm_def makeNestedForm0_def
      field_handler.simps(2) field_handler0.simps(2) for_in_values_def

text \<open>
  Claim C7, as stated: invoking a handler leaves every key-value binding of the context
  unchanged. It does not. The handler of \<^verbatim>\<open>make_input("title", ...)\<close>, given
  \<^verbatim>\<open>{title: {value: "a", errors: ["bad"]}}\<close>, leaves \<^verbatim>\<open>{title: "a"}\<close> (line 62,
  "simplify the structure of the JSON again"), in both revisions; the handler of
  \<^verbatim>\<open>makeNestedForm("items", ...)\<close>, given \<^verbatim>\<open>{}\<close>, leaves \<^verbatim>\<open>{items: []}\<close> (line 97).
\<close>

theorem rendering_changes_binding_counterexample:
  "binding (snd (snd (make_input small_browser ''title'' ''Title'' Null ''<input type=text>''
      initial_edwa
      (Obj [(''title'', Obj [(''value'', Str ''a''), (''errors'', Arr [Str ''bad''])])]))))
     ''title'' = Some (Str ''a'')
   \<and> binding (Obj [(''title'', Obj [(''value'', Str ''a''), (''errors'', Arr [Str ''bad''])])])
       ''title'' = Some (Obj [(''value'', Str ''a''), (''errors'', Arr [Str ''bad''])])
   \<and> binding (snd (snd (make_input0 small_browser ''title'' ''Title'' Null ''<input type=text>''
        initial_edwa
        (Obj [(''title'', Obj [(''value'', Str ''a''), (''errors'', Arr [Str ''bad''])])]))))
       ''title'' = Some (Str ''a'')
   \<and> binding (snd (snd (makeNestedForm small_browser ''items'' ''Items'' [] Undefined
        initial_edwa (Obj [])))) ''items'' = Some (Arr [])
   \<and> binding (snd (snd (makeNestedForm0 small_browser ''items'' ''Items'' [] Undefined
        initial_edwa (Obj [])))) ''items'' = Some (Arr [])
   \<and> binding (Obj []) ''items'' = None"
  by (simp add: eval_defs)

text \<open>
  Claim C7, amended: invoking the handler made by \<^verbatim>\<open>make_input(name, ...)\<close> or by
  \<^verbatim>\<open>makeNestedForm(name, ...)\<close> leaves every key-value binding of the context other than
  that of \<open>name\<close> unchanged, whether the handler returns or throws, in both revisions. The
  binding of \<open>name\<close> itself is rewritten.
\<close>

theorem rendering_keeps_other_bindings:
  "k \<noteq> name \<Longrightarrow>
   binding (snd (snd (make_input h name label_text help_text input_str st data))) k
     = binding data k
   \<and> binding (snd (snd (makeNestedForm h name label template extras st data))) k
     = binding data k
   \<and> binding (snd (snd (make_input0 h name label_text help_text input_str st data))) k
     = binding data k
   \<and> binding (snd (snd (makeNestedForm0 h name label template extras st data))) k
     = binding data k"
  by (simp add: binding_make_input binding_make_input0 binding_nested binding_nested0
      makeNestedForm_def makeNestedForm0_def)

theorem rendering_keeps_other_bindings_witness:
  "''other'' \<noteq> ''title''
   \<and> binding (snd (snd (make_input small_browser ''title'' ''Title'' Null ''<input type=text>''
        initial_edwa
        (Obj [(''title'', Obj [(''value'', Str ''a'')]), (''other'', Num 3)])))) ''other''
     = Some (Num 3)
   \<and> binding (snd (snd (makeNestedForm small_browser ''title'' ''Title''
        [Input ''n'' ''N'' Null ''<input type=text>''] Undefined initial_edwa
        (Obj [(''title'', Obj [(''value'', Str ''a'')]), (''other'', Num 3)])))) ''other''
     = Some (Num 3)"
  using rendering_keeps_other_bindings [of "''other''" "''title''" small_browser
      "''Title''" Null "''<input type=text>''" initial_edwa
      "Obj [(''title'', Obj [(''value'', Str ''a'')]), (''other'', Num 3)]"
      "''Title''" "[Input ''n'' ''N'' Null ''<input type=text>'']" Undefined]
  by (simp add: binding_def)

section \<open>The data list of a nested form\<close>






section \<open>The options of a JSON form\<close>

text \<open>
  A property of \<^verbatim>\<open>$.extend(target, src)\<close> for an object \<open>src\<close>: the value under a key is that
  of \<open>src\<close> where \<open>src\<close> has the key with a value other than undefined, and that of
  \<open>target\<close> elsewhere.
\<close>

lemma map_of_extend_fold:
  "\<forall>kv \<in> set l. snd kv = L (fst kv) \<Longrightarrow>
   map_of (fold (\<lambda>kv t. if snd kv = Undefined then t else AList.update (fst kv) (snd kv) t) l t) k
   = (if k \<in> fst ` set l \<and> L k \<noteq> Undefined then Some (L k) else map_of t k)"
proof (induction l arbitrary: t)
  case Nil
  then show ?case by simp
next
  case (Cons kv l)
  then have rest: "\<forall>kv \<in> set l. snd kv = L (fst kv)" and now: "snd kv = L (fst kv)"
    by simp_all
  show ?case
    using Cons.IH [OF rest] now by (auto simp: update_conv')
qed

lemma map_of_jq_extend_Obj:
  "map_of (jq_extend t (Obj kvs)) k
   = (if has_key kvs k \<and> lookup kvs k \<noteq> Undefined then Some (lookup kvs k) else map_of t k)"
proof -
  have keys: "k \<in> fst ` set (props (Obj kvs)) \<longleftrightarrow> has_key kvs k"
    by (force simp: has_key_def map_of_eq_None_iff image_iff)
  have "\<forall>kv \<in> set (props (Obj kvs)). snd kv = lookup kvs (fst kv)"
    by auto
  from map_of_extend_fold [OF this, of t k] keys show ?thesis
    by (simp add: jq_extend_def)
qed

lemma lookup_jq_extend_Obj:
  "lookup (jq_extend t (Obj kvs)) k
   = (if has_key kvs k \<and> lookup kvs k \<noteq> Undefined then lookup kvs k else lookup t k)"
  using map_of_jq_extend_Obj [of t kvs k] by (simp add: lookup_def)

lemma has_key_jq_extend_Obj:
  "has_key (jq_extend t (Obj kvs)) k
   = (has_key kvs k \<and> lookup kvs k \<noteq> Undefined \<or> has_key t k)"
  using map_of_jq_extend_Obj [of t kvs k] by (simp add: has_key_def)

lemma overrides_keys:
  "has_key jsonform_overrides k \<longleftrightarrow> k = ''allow_add'' \<or> k = ''allow_remove'' \<or> k = ''_return_td''"
  by (auto simp: has_key_def jsonform_overrides_def)

lemma overrides_values:
  "lookup jsonform_overrides ''allow_add'' = Bool False"
  "lookup jsonform_overrides ''allow_remove'' = Bool False"
  "lookup jsonform_overrides ''_return_td'' = Bool True"
  by (simp_all add: lookup_def jsonform_overrides_def)

lemma make_jsonform_extras_left:
  "snd (snd (snd (make_jsonform h data template (Obj kvs) st)))
   = Obj (jq_extend kvs (Obj jsonform_overrides))"
  by (simp add: make_jsonform_def split: sum.splits prod.splits)

lemma make_jsonform0_extras_left:
  "snd (snd (snd (make_jsonform0 h data template (Obj kvs) st)))
   = Obj (jq_extend kvs (Obj jsonform_overrides))"
  by (simp add: make_jsonform0_def split: sum.splits prod.splits)

text \<open>The form is the nested form built with the extended object as its extras.\<close>

lemma make_jsonform_builds:
  "ensure_item h (get_value data) = Inr data1 \<Longrightarrow>
   fst (make_jsonform h data template (Obj kvs) st)
   = map_sum id first_children
       (fst (makeNestedForm h ''x'' ''x'' template (Obj (jq_extend kvs (Obj jsonform_overrides)))
          st (Obj [(''x'', data1)])))"
  by (simp add: make_jsonform_def split: sum.splits prod.splits)

text \<open>
  Claim C10: for every extras object \<open>Obj kvs\<close> passed to \<^verbatim>\<open>make_jsonform\<close>, in both
  revisions, the form is built by \<^verbatim>\<open>makeNestedForm\<close> with the extended object as its
  extras, and the options of that nested form have \<^verbatim>\<open>allow_add\<close> false, \<^verbatim>\<open>allow_remove\<close>
  false and \<^verbatim>\<open>_return_td\<close> true, whatever \<open>kvs\<close> holds. The caller's object is the extended
  one afterwards: these three properties are overwritten with those values, every other
  property is as before, and this is so whether the call returns or throws.
\<close>

theorem jsonform_extras_forced:
  "jsonform_extras (Obj kvs)
     = Inr (jq_extend kvs (Obj jsonform_overrides), Obj (jq_extend kvs (Obj jsonform_overrides)))
   \<and> lookup (makeNestedForm_extras (Obj (jq_extend kvs (Obj jsonform_overrides)))) ''allow_add''
       = Bool False
   \<and> lookup (makeNestedForm_extras (Obj (jq_extend kvs (Obj jsonform_overrides)))) ''allow_remove''
       = Bool False
   \<and> lookup (makeNestedForm_extras (Obj (jq_extend kvs (Obj jsonform_overrides)))) ''_return_td''
       = Bool True
   \<and> (ensure_item h (get_value data) = Inr data1 \<longrightarrow>
        fst (make_jsonform h data template (Obj kvs) st)
        = map_sum id first_children
            (fst (makeNestedForm h ''x'' ''x'' template
               (Obj (jq_extend kvs (Obj jsonform_overrides))) st (Obj [(''x'', data1)]))))
   \<and> fst (make_jsonform0 h data template (Obj kvs) st)
       = map_sum id children
           (fst (makeNestedForm0 h ''x'' ''x'' template
              (Obj (jq_extend kvs (Obj jsonform_overrides))) st (Obj [(''x'', Arr [data])])))
   \<and> snd (snd (snd (make_jsonform h data template (Obj kvs) st)))
       = Obj (jq_extend kvs (Obj jsonform_overrides))
   \<and> snd (snd (snd (make_jsonform0 h data template (Obj kvs) st)))
       = Obj (jq_extend kvs (Obj jsonform_overrides))
   \<and> lookup (jq_extend kvs (Obj jsonform_overrides)) ''allow_add'' = Bool False
   \<and> lookup (jq_extend kvs (Obj jsonform_overrides)) ''allow_remove'' = Bool False
   \<and> lookup (jq_extend kvs (Obj jsonform_overrides)) ''_return_td'' = Bool True
   \<and> (k \<noteq> ''allow_add'' \<and> k \<noteq> ''allow_remove'' \<and> k \<noteq> ''_return_td'' \<longrightarrow>
        map_of (jq_extend kvs (Obj jsonform_overrides)) k = map_of kvs k)"
proof -
  let ?ex = "jq_extend kvs (Obj jsonform_overrides)"
  have v: "lookup ?ex ''allow_add'' = Bool False" "lookup ?ex ''allow_remove'' = Bool False"
    "lookup ?ex ''_return_td'' = Bool True"
    by (simp_all add: lookup_jq_extend_Obj overrides_keys overrides_values)
  have k: "has_key ?ex ''allow_add''" "has_key ?ex ''allow_remove''" "has_key ?ex ''_return_td''"
    by (simp_all add: has_key_jq_extend_Obj overrides_keys overrides_values)
  have n: "lookup (makeNestedForm_extras (Obj ?ex)) ''allow_add'' = Bool False"
    "lookup (makeNestedForm_extras (Obj ?ex)) ''allow_remove'' = Bool False"
    "lookup (makeNestedForm_extras (Obj ?ex)) ''_return_td'' = Bool True"
    using v k by (simp_all add: makeNestedForm_extras_def lookup_jq_extend_Obj)
  have o: "k \<noteq> ''allow_add'' \<and> k \<noteq> ''allow_remove'' \<and> k \<noteq> ''_return_td'' \<longrightarrow>
        map_of ?ex k = map_of kvs k"
    by (simp add: map_of_jq_extend_Obj overrides_keys)
  have b0: "fst (make_jsonform0 h data template (Obj kvs) st)
       = map_sum id children
           (fst (makeNestedForm0 h ''x'' ''x'' template (Obj ?ex) st (Obj [(''x'', Arr [data])])))"
    by (simp add: make_jsonform0_def split: sum.splits prod.splits)
  show ?thesis
    using v n o b0 make_jsonform_builds [of h data data1 template kvs st]
      make_jsonform_extras_left [of h data template kvs st]
      make_jsonform0_extras_left [of h data template kvs st]
    by simp
qed

theorem jsonform_extras_forced_witness:
  "ensure_item small_browser (get_value (Arr [])) = Inr (Arr [Obj []])
   \<and> fst (make_jsonform small_browser (Arr []) [] (Obj [(''allow_add'', Bool True), (''add_icon'', Str ''+'')])
        initial_edwa)
     = map_sum id first_children
         (fst (makeNestedForm small_browser ''x'' ''x'' []
            (Obj (jq_extend [(''allow_add'', Bool True), (''add_icon'', Str ''+'')]
               (Obj jsonform_overrides))) initial_edwa (Obj [(''x'', Arr [Obj []])])))
   \<and> ''add_icon'' \<noteq> ''allow_add'' \<and> ''add_icon'' \<noteq> ''allow_remove'' \<and> ''add_icon'' \<noteq> ''_return_td''
   \<and> map_of (jq_extend [(''allow_add'', Bool True), (''add_icon'', Str ''+'')]
        (Obj jsonform_overrides)) ''add_icon'' = Some (Str ''+'')
   \<and> lookup (jq_extend [(''allow_add'', Bool True), (''add_icon'', Str ''+'')]
        (Obj jsonform_overrides)) ''allow_add'' = Bool False"
  using jsonform_extras_forced [of "[(''allow_add'', Bool True), (''add_icon'', Str ''+'')]"
      small_browser "Arr []" "Arr [Obj []]" "[]" initial_edwa "''add_icon''"]
  by (simp add: ensure_item_def get_value_def)

section \<open>The counter reaches the markup only through the ids\<close>

text \<open>The handler of \<^verbatim>\<open>make_input\<close>: the id does not reach the data it leaves.\<close>


lemma forget_id_simps [simp]:
  "ctl_type (forget_id c) = ctl_type c" "ctl_class (forget_id c) = ctl_class c"
  "ctl_value (forget_id c) = ctl_value c" "ctl_checked (forget_id c) = ctl_checked c"
  "ctl_options (forget_id c) = ctl_options c" "forget_id (c\<lparr>ctl_id := i\<rparr>) = forget_id c"
  "forget_id (forget_id c) = forget_id c"
  by (simp_all add: forget_id_def)


lemma control_data_forget [simp]: "control_data (forget_id c) = control_data c"
  by (simp add: control_data_def)



lemma forget_for_label [simp]: "forget_for (''for'', i) = (''for'', [])"
  by (simp add: forget_for_def)








lemma marked_forget [simp]: "marked prefix (forget_id c) = marked prefix c"
  by (simp add: marked_def)



lemma dom_value_forget [simp]: "dom_value (forget_id c) = dom_value c"
  by (simp add: dom_value_def)


















lemma css_prefix_renumber [simp]: "css_prefix (st\<lparr>next_id := n\<rparr>) = css_prefix st"
  by simp
















section \<open>Properties of the navigation engine\<close>

text \<open>
  Claim C3: starting from the one-frame stack \<open>[a]\<close>, \<^verbatim>\<open>call(B, ctx, on_return, rctx)\<close>
  followed by \<^verbatim>\<open>return(v)\<close> succeeds and leaves a one-frame stack whose top is the frame
  of \<open>a\<close> (its view, return handler and return context as before, its context as
  \<open>on_return\<close> leaves it), and the engine has invoked exactly one return handler in
  between: \<open>on_return\<close>, with the arguments \<open>v\<close> and \<open>rctx\<close>, against that frame's context.
\<close>

theorem call_then_return:
  "do_return reg v (do_call view_b ctx (Some on_return) rctx \<lparr>stack = [a], invoked = log\<rparr>)
   = Inr \<lparr>stack = [a\<lparr>frame_context := reg on_return (frame_context a) v rctx\<rparr>],
          invoked = log @ [(on_return, v, rctx)]\<rparr>
   \<and> view_reference (a\<lparr>frame_context := reg on_return (frame_context a) v rctx\<rparr>)
       = view_reference a"
  by (simp add: do_call_def)

text \<open>
  Claim C4: on a stack of exactly one frame \<^verbatim>\<open>return(value)\<close> fails with
  \<open>EmptyStackError\<close>. On a stack of two or more frames it pops the top frame \<open>f\<close>; when
  \<open>f\<close> records a return handler, that handler is invoked once against the new top frame
  \<open>g\<close>, with the value and the return context of \<open>f\<close>, and the frames below stay as they
  are; when \<open>f\<close> records none, the frame is popped and nothing is invoked.
\<close>

theorem return_pops_or_fails:
  "do_return reg v \<lparr>stack = [f], invoked = log\<rparr> = Inl EmptyStackError
   \<and> (return_handler_reference f = Some handler \<longrightarrow>
        do_return reg v \<lparr>stack = f # g # rest, invoked = log\<rparr>
        = Inr \<lparr>stack = g\<lparr>frame_context :=
                              reg handler (frame_context g) v (return_context f)\<rparr> # rest,
               invoked = log @ [(handler, v, return_context f)]\<rparr>)
   \<and> (return_handler_reference f = None \<longrightarrow>
        do_return reg v \<lparr>stack = f # g # rest, invoked = log\<rparr>
        = Inr \<lparr>stack = g # rest, invoked = log\<rparr>)"
  by simp

theorem return_pops_or_fails_witness:
  "return_handler_reference
     \<lparr>view_reference = ''SubPage'', frame_context = [],
      return_handler_reference = Some ''on_return'', return_context = [(''k'', Num 1)]\<rparr>
   = Some ''on_return''
   \<and> do_return (\<lambda>handler c v rc. AList.update ''cnt'' v c) (Num 5)
        \<lparr>stack = [\<lparr>view_reference = ''SubPage'', frame_context = [],
                    return_handler_reference = Some ''on_return'',
                    return_context = [(''k'', Num 1)]\<rparr>,
                   \<lparr>view_reference = ''MainPage'', frame_context = [(''cnt'', Num 1)],
                    return_handler_reference = None, return_context = []\<rparr>],
         invoked = []\<rparr>
     = Inr \<lparr>stack = [\<lparr>view_reference = ''MainPage'', frame_context = [(''cnt'', Num 5)],
                       return_handler_reference = None, return_context = []\<rparr>],
            invoked = [(''on_return'', Num 5, [(''k'', Num 1)])]\<rparr>
   \<and> return_handler_reference
       \<lparr>view_reference = ''MainPage'', frame_context = [(''cnt'', Num 1)],
        return_handler_reference = None, return_context = []\<rparr> = None
   \<and> do_return (\<lambda>handler c v rc. AList.update ''cnt'' v c) (Num 5)
        \<lparr>stack = [\<lparr>view_reference = ''MainPage'', frame_context = [(''cnt'', Num 1)],
                    return_handler_reference = None, return_context = []\<rparr>,
                   \<lparr>view_reference = ''Home'', frame_context = [],
                    return_handler_reference = None, return_context = []\<rparr>],
         invoked = []\<rparr>
     = Inr \<lparr>stack = [\<lparr>view_reference = ''Home'', frame_context = [],
                       return_handler_reference = None, return_context = []\<rparr>],
            invoked = []\<rparr>
   \<and> do_return (\<lambda>handler c v rc. AList.update ''cnt'' v c) (Num 5)
        \<lparr>stack = [\<lparr>view_reference = ''MainPage'', frame_context = [(''cnt'', Num 1)],
                    return_handler_reference = None, return_context = []\<rparr>],
         invoked = []\<rparr>
     = Inl EmptyStackError"
  using return_pops_or_fails
    [of "\<lambda>handler c v rc. AList.update ''cnt'' v c" "Num 5"
      "\<lparr>view_reference = ''SubPage'', frame_context = [],
        return_handler_reference = Some ''on_return'', return_context = [(''k'', Num 1)]\<rparr>"
      "[]" "''on_return''"
      "\<lparr>view_reference = ''MainPage'', frame_context = [(''cnt'', Num 1)],
        return_handler_reference = None, return_context = []\<rparr>" "[]"]
    return_pops_or_fails
    [of "\<lambda>handler c v rc. AList.update ''cnt'' v c" "Num 5"
      "\<lparr>view_reference = ''MainPage'', frame_context = [(''cnt'', Num 1)],
        return_handler_reference = None, return_context = []\<rparr>"
      "[]" "''x''"
      "\<lparr>view_reference = ''Home'', frame_context = [],
        return_handler_reference = None, return_context = []\<rparr>" "[]"]
  by simp

section \<open>Properties of the transport backends\<close>

text \<open>
  Claim C5: the backend that \<^verbatim>\<open>publish\<close> uses is \<open>choose_backend\<close> of the encoded length
  and the configuration, and of nothing else. When the Database is not configured and
  the encoded length exceeds the threshold, the token is published through POST; an
  encoding of 2500 bytes against a threshold of 2000 is. Without the Database the token
  always carries the whole encoding, through GET or through POST, never a shortened one.
\<close>

theorem size_fallback:
  "fst (publish cfg enc db) = choose_backend (length enc) cfg
   \<and> (\<not> database_configured cfg \<and> get_threshold cfg < length enc \<longrightarrow>
        choose_backend (length enc) cfg = POST
        \<and> publish cfg enc db = (POST, FormField enc, db))
   \<and> (\<not> database_configured cfg \<longrightarrow>
        token_text (fst (snd (publish cfg enc db))) = Some enc)
   \<and> choose_backend 2500 \<lparr>database_configured = False, get_threshold = 2000\<rparr> = POST"
  by (simp add: publish_def choose_backend_def get_publish_def post_publish_def
      database_publish_def)

theorem size_fallback_witness:
  "\<not> database_configured \<lparr>database_configured = False, get_threshold = 2000\<rparr>
   \<and> get_threshold \<lparr>database_configured = False, get_threshold = 2000\<rparr>
       < length (replicate 2500 CHR ''a'')
   \<and> publish \<lparr>database_configured = False, get_threshold = 2000\<rparr> (replicate 2500 CHR ''a'')
        \<lparr>blobs = [], next_identifier = 0\<rparr>
     = (POST, FormField (replicate 2500 CHR ''a''), \<lparr>blobs = [], next_identifier = 0\<rparr>)
   \<and> token_text (fst (snd (publish \<lparr>database_configured = False, get_threshold = 2000\<rparr>
        (replicate 2500 CHR ''a'') \<lparr>blobs = [], next_identifier = 0\<rparr>)))
     = Some (replicate 2500 CHR ''a'')"
  using size_fallback [of "\<lparr>database_configured = False, get_threshold = 2000\<rparr>"
      "replicate 2500 CHR ''a''" "\<lparr>blobs = [], next_identifier = 0\<rparr>"]
  by simp
end
